theory Spec2Isabelle
  imports Main "HOL-Library.Sublist"
begin

section \<open>Values exchanged with the collaborating packages\<close>

text \<open>
  The file \<^verbatim>\<open>cmd/adapter/app/start.go\<close> assembles the adapter from packages it
  imports. Their values are opaque here: a constructor with a label stands for what the
  package returned. A Go \<^verbatim>\<open>error\<close> built by \<^verbatim>\<open>fmt.Errorf\<close> is its message, and
  \<^verbatim>\<open>Error\<close> reads the message back.
\<close>

datatype go_error = errorString string

fun Error :: "go_error \<Rightarrow> string" where
  "Error (errorString s) = s"

text \<open>\<^verbatim>\<open>time.Duration\<close>: a count of nanoseconds. No arithmetic is done on it here.\<close>

type_synonym Duration = int

datatype rest_Config = RestConfig string

datatype RoundTripper = RoundTripper string

text \<open>
  \<^verbatim>\<open>*http.Client\<close>: the process-wide \<^verbatim>\<open>http.DefaultClient\<close>, or the literal
  \<^verbatim>\<open>&http.Client{Transport: tr}\<close>. The default client is the pointer that
  \<^verbatim>\<open>net/http\<close> initialises; this program never assigns it.
\<close>

datatype http_Client = DefaultClient | Client RoundTripper

text \<open>The fields of \<^verbatim>\<open>url.URL\<close> that a base URL of the backend uses.\<close>

record URL =
  Scheme :: string
  Host :: string
  Path :: string
  RawQuery :: string
  Fragment :: string

datatype DiscoveryClient = DiscoveryClient string

datatype RESTMapper = RESTMapper string

datatype Server = Server string

text \<open>The stop channel is only handed on.\<close>

datatype chan = Chan nat

text \<open>The embedded \<^verbatim>\<open>*server.CustomMetricsAdapterServerOptions\<close>.\<close>

datatype CustomMetricsAdapterServerOptions = BaseOptions string

record GenericConfig =
  EnableMetrics :: bool

record apiserver_Config =
  GenericConfig :: GenericConfig

text \<open>
  Constructors of the collaborating packages that return no error are free constructors:
  the value records what it was built from.
  \<^verbatim>\<open>InstrumentGenericAPIClient\<close> returns a \<^verbatim>\<open>GenericAPIClient\<close> again.
\<close>

datatype ClientPool = NewClientPool rest_Config RESTMapper

datatype GenericAPIClient =
    NewGenericAPIClient "http_Client option" URL
  | InstrumentGenericAPIClient GenericAPIClient string

datatype prom_Client = NewClientForAPI GenericAPIClient

datatype CustomMetricsProvider =
  NewPrometheusProvider RESTMapper ClientPool prom_Client string Duration Duration chan

section \<open>Options\<close>

record PrometheusAdapterServerOptions =
  base :: CustomMetricsAdapterServerOptions
  RemoteKubeConfigFile :: string
  MetricsRelistInterval :: Duration
  RateInterval :: Duration
  DiscoveryInterval :: Duration
  PrometheusURL :: string
  PrometheusAuthInCluster :: bool
  PrometheusAuthConf :: string
  LabelPrefix :: string

section \<open>The environment: what the fallible collaborators answer\<close>

text \<open>
  Every call that can fail, or whose answer comes from outside the process, is a field of
  the environment. A call returns either its error (\<open>Inl\<close>) or its value (\<open>Inr\<close>),
  the Go convention for \<^verbatim>\<open>(value, error)\<close> results.
  \<^item> \<open>opts_Complete\<close>, \<open>opts_Validate\<close>, \<open>opts_Config\<close>: the methods
    \<^verbatim>\<open>Complete\<close>, \<^verbatim>\<open>Validate\<close> and \<^verbatim>\<open>Config\<close> that
    \<^verbatim>\<open>PrometheusAdapterServerOptions\<close> gets from the embedded base options; their
    receiver is the embedded value, so they see none of the adapter's own fields.
  \<^item> \<open>clientcmd_ClientConfig path\<close>: \<^verbatim>\<open>loader.ClientConfig()\<close> of a deferred loader
    whose \<^verbatim>\<open>ExplicitPath\<close> is \<open>path\<close>.
  \<^item> \<open>Config_New\<close>: \<^verbatim>\<open>config.Complete().New(name, provider)\<close>.
  \<^item> \<open>Server_Run\<close>: \<^verbatim>\<open>server.GenericAPIServer.PrepareRun().Run(stopCh)\<close>.
  \<^item> \<open>URL_String\<close> and \<open>strconv_Quote\<close>: \<^verbatim>\<open>(*url.URL).String\<close> and the quoting that
    the verb \<^verbatim>\<open>%q\<close> applies to a string.
\<close>

record env =
  opts_Complete :: "CustomMetricsAdapterServerOptions \<Rightarrow> go_error option \<times> CustomMetricsAdapterServerOptions"
  opts_Validate :: "CustomMetricsAdapterServerOptions \<Rightarrow> string list \<Rightarrow> go_error option"
  opts_Config :: "CustomMetricsAdapterServerOptions \<Rightarrow> go_error + apiserver_Config"
  clientcmd_ClientConfig :: "string \<Rightarrow> go_error + rest_Config"
  rest_InClusterConfig :: "go_error + rest_Config"
  rest_TransportFor :: "rest_Config \<Rightarrow> go_error + RoundTripper"
  discovery_NewDiscoveryClientForConfig :: "rest_Config \<Rightarrow> go_error + DiscoveryClient"
  dynamicmapper_NewRESTMapper :: "DiscoveryClient \<Rightarrow> Duration \<Rightarrow> go_error + RESTMapper"
  url_Parse :: "string \<Rightarrow> go_error + URL"
  URL_String :: "URL \<Rightarrow> string"
  strconv_Quote :: "string \<Rightarrow> string"
  Config_New :: "apiserver_Config \<Rightarrow> string \<Rightarrow> CustomMetricsProvider \<Rightarrow> go_error + Server"
  Server_Run :: "Server \<Rightarrow> chan \<Rightarrow> go_error option"

section \<open>Traces\<close>

text \<open>
  A run leaves a trace: the calls it made to the collaborating packages, in order, each
  with its arguments. \<open>makeHTTPClient\<close> has a trace of its own; the caller records
  the call to it as one event that carries the arguments and that trace.
\<close>

datatype call =
    Call_Complete CustomMetricsAdapterServerOptions
  | Call_Validate CustomMetricsAdapterServerOptions "string list"
  | Call_Config CustomMetricsAdapterServerOptions
  | Call_ClientConfig string
  | Call_InClusterConfig
  | Call_TransportFor rest_Config
  | Call_NewDiscoveryClientForConfig rest_Config
  | Call_NewRESTMapper DiscoveryClient Duration
  | Call_NewClientPool rest_Config RESTMapper
  | Call_url_Parse string
  | Call_NewGenericAPIClient "http_Client option" URL
  | Call_InstrumentGenericAPIClient GenericAPIClient string
  | Call_NewClientForAPI GenericAPIClient
  | Call_NewPrometheusProvider RESTMapper ClientPool prom_Client string Duration Duration chan
  | Call_New apiserver_Config string CustomMetricsProvider
  | Call_Run Server chan

datatype event = Ext call | MakeHTTPClient bool string "call list"

section \<open>Formatting\<close>

text \<open>
  \<^verbatim>\<open>%q\<close> of a \<^verbatim>\<open>*url.URL\<close>: the type has a \<^verbatim>\<open>String\<close> method, so a URL is
  quoted through it; for a nil pointer the method panics and \<^verbatim>\<open>fmt\<close> prints
  \<^verbatim>\<open><nil>\<close> in its place.
\<close>

fun fmt_q_URL :: "env \<Rightarrow> URL option \<Rightarrow> string" where
  "fmt_q_URL env None = ''<nil>''"
| "fmt_q_URL env (Some u) = strconv_Quote env (URL_String env u)"

section \<open>makeHTTPClient\<close>

text \<open>
  The result is the Go pair \<^verbatim>\<open>(*http.Client, error)\<close>, \<open>None\<close> for nil, beside the
  trace of the calls made.
\<close>

definition makeHTTPClient ::
  "env \<Rightarrow> bool \<Rightarrow> string \<Rightarrow> (http_Client option \<times> go_error option) \<times> call list" where
  "makeHTTPClient env inClusterAuth kubeConfigPath =
    (if inClusterAuth \<and> kubeConfigPath \<noteq> [] then
       ((None, Some (errorString
          ''may not use both in-cluster auth and an explicit kubeconfig at the same time'')), [])
     else if \<not> inClusterAuth \<and> kubeConfigPath = [] then
       ((Some DefaultClient, None), [])
     else
       (case
          (if kubeConfigPath \<noteq> [] then
             (case clientcmd_ClientConfig env kubeConfigPath of
                Inl err \<Rightarrow>
                  (Inl (errorString
                     (''unable to construct  auth configuration from ''
                        @ strconv_Quote env kubeConfigPath
                        @ '' for connecting to Prometheus: '' @ Error err)),
                   [Call_ClientConfig kubeConfigPath])
              | Inr authConf \<Rightarrow> (Inr authConf, [Call_ClientConfig kubeConfigPath]))
           else
             (case rest_InClusterConfig env of
                Inl err \<Rightarrow>
                  (Inl (errorString
                     (''unable to construct in-cluster auth configuration for connecting to Prometheus: ''
                        @ Error err)),
                   [Call_InClusterConfig])
              | Inr authConf \<Rightarrow> (Inr authConf, [Call_InClusterConfig])))
        of
          (Inl e, calls) \<Rightarrow> ((None, Some e), calls)
        | (Inr authConf, calls) \<Rightarrow>
            (case rest_TransportFor env authConf of
               Inl err \<Rightarrow>
                 ((None, Some (errorString
                    (''unable to construct client transport for connecting to Prometheus: ''
                       @ Error err))),
                  calls @ [Call_TransportFor authConf])
             | Inr tr \<Rightarrow>
                 ((Some (Client tr), None), calls @ [Call_TransportFor authConf]))))"

section \<open>Sequencing fallible steps\<close>

text \<open>
  A step of \<open>RunCustomMetricsAdapterServer\<close> yields an error or a value, and the events
  it caused. \<open>andThen\<close> is the Go idiom
  \<^verbatim>\<open>x, err := step(); if err != nil { return err }; rest\<close>:
  the rest runs only after a value, and the events accumulate in order.
\<close>

type_synonym 'a step = "(go_error + 'a) \<times> event list"

definition ext :: "call \<Rightarrow> go_error + 'a \<Rightarrow> 'a step" where
  "ext c r = (r, [Ext c])"

definition andThen :: "'a step \<Rightarrow> ('a \<Rightarrow> 'b step) \<Rightarrow> 'b step" where
  "andThen m f =
     (case m of
        (Inl e, t) \<Rightarrow> (Inl e, t)
      | (Inr x, t) \<Rightarrow> (case f x of (r, t') \<Rightarrow> (r, t @ t')))"

text \<open>\<^verbatim>\<open>if err != nil { return fmt.Errorf(msg + "%v", err) }\<close>\<close>

definition orErrorf :: "string \<Rightarrow> 'a step \<Rightarrow> 'a step" where
  "orErrorf msg m =
     (case m of
        (Inl err, t) \<Rightarrow> (Inl (errorString (msg @ Error err)), t)
      | (Inr x, t) \<Rightarrow> (Inr x, t))"

text \<open>A function whose only result is an \<^verbatim>\<open>error\<close> returns nil after its last step.\<close>

definition returned :: "unit step \<Rightarrow> go_error option \<times> event list" where
  "returned m = (case m of (Inl e, t) \<Rightarrow> (Some e, t) | (Inr u, t) \<Rightarrow> (None, t))"

definition nilable :: "go_error option \<Rightarrow> go_error + unit" where
  "nilable err = (case err of Some e \<Rightarrow> Inl e | None \<Rightarrow> Inr ())"

section \<open>RunCustomMetricsAdapterServer\<close>

text \<open>
  The body of the method, line by line. Two remarks:
  \<^item> after \<^verbatim>\<open>dynamic.NewClientPool\<close> the source tests \<^verbatim>\<open>err\<close> again; the variable still
    holds the nil of the mapper's construction, so the test never fires and is the
    \<open>nilable None\<close> step below;
  \<^item> when \<^verbatim>\<open>url.Parse\<close> fails it returns a nil \<^verbatim>\<open>*url.URL\<close> beside the error, and the
    message is formatted from that variable, \<open>baseURL\<close>.
\<close>

definition RunCustomMetricsAdapterServer ::
  "env \<Rightarrow> PrometheusAdapterServerOptions \<Rightarrow> chan \<Rightarrow> go_error option \<times> event list" where
  "RunCustomMetricsAdapterServer env opts stopCh = returned (
     andThen (ext (Call_Config (base opts)) (opts_Config env (base opts))) (\<lambda>config0.
     let config = config0\<lparr>GenericConfig := (GenericConfig config0)\<lparr>EnableMetrics := True\<rparr>\<rparr> in
     andThen (orErrorf ''unable to construct lister client config to initialize provider: ''
       (if length (RemoteKubeConfigFile opts) > 0
        then ext (Call_ClientConfig (RemoteKubeConfigFile opts))
               (clientcmd_ClientConfig env (RemoteKubeConfigFile opts))
        else ext Call_InClusterConfig (rest_InClusterConfig env))) (\<lambda>clientConfig.
     andThen (orErrorf ''unable to construct discovery client for dynamic client: ''
       (ext (Call_NewDiscoveryClientForConfig clientConfig)
          (discovery_NewDiscoveryClientForConfig env clientConfig))) (\<lambda>discoveryClient.
     andThen (orErrorf ''unable to construct dynamic discovery mapper: ''
       (ext (Call_NewRESTMapper discoveryClient (DiscoveryInterval opts))
          (dynamicmapper_NewRESTMapper env discoveryClient (DiscoveryInterval opts)))) (\<lambda>dynamicMapper.
     andThen (ext (Call_NewClientPool clientConfig dynamicMapper)
       (Inr (NewClientPool clientConfig dynamicMapper))) (\<lambda>clientPool.
     andThen (orErrorf ''unable to construct lister client to initialize provider: ''
       (nilable None, [])) (\<lambda>_.
     andThen (ext (Call_url_Parse (PrometheusURL opts))
       (case url_Parse env (PrometheusURL opts) of
          Inl err \<Rightarrow>
            (let baseURL = None in
             Inl (errorString (''invalid Prometheus URL '' @ fmt_q_URL env baseURL
                                 @ '': '' @ Error err)))
        | Inr baseURL \<Rightarrow> Inr baseURL)) (\<lambda>baseURL.
     andThen
       (case makeHTTPClient env (PrometheusAuthInCluster opts) (PrometheusAuthConf opts) of
          ((promHTTPClient, err), calls) \<Rightarrow>
            ((case err of Some e \<Rightarrow> Inl e | None \<Rightarrow> Inr promHTTPClient),
             [MakeHTTPClient (PrometheusAuthInCluster opts) (PrometheusAuthConf opts) calls]))
       (\<lambda>promHTTPClient.
     andThen (ext (Call_NewGenericAPIClient promHTTPClient baseURL)
       (Inr (NewGenericAPIClient promHTTPClient baseURL))) (\<lambda>genericPromClient.
     andThen (ext (Call_InstrumentGenericAPIClient genericPromClient (URL_String env baseURL))
       (Inr (InstrumentGenericAPIClient genericPromClient (URL_String env baseURL))))
       (\<lambda>instrumentedGenericPromClient.
     andThen (ext (Call_NewClientForAPI instrumentedGenericPromClient)
       (Inr (NewClientForAPI instrumentedGenericPromClient))) (\<lambda>promClient.
     andThen (ext (Call_NewPrometheusProvider dynamicMapper clientPool promClient
                     (LabelPrefix opts) (MetricsRelistInterval opts) (RateInterval opts) stopCh)
       (Inr (NewPrometheusProvider dynamicMapper clientPool promClient
               (LabelPrefix opts) (MetricsRelistInterval opts) (RateInterval opts) stopCh)))
       (\<lambda>cmProvider.
     andThen (ext (Call_New config ''prometheus-custom-metrics-adapter'' cmProvider)
       (Config_New env config ''prometheus-custom-metrics-adapter'' cmProvider)) (\<lambda>server.
     ext (Call_Run server stopCh) (nilable (Server_Run env server stopCh))))))))))))))))"

section \<open>The command's RunE\<close>

text \<open>
  The function that \<^verbatim>\<open>NewCommandStartPrometheusAdapterServer\<close> installs as the
  command's \<^verbatim>\<open>RunE\<close>, applied to the options as the flags have set them.
  \<^verbatim>\<open>Complete\<close> has a pointer receiver on the embedded options and may update them; the
  later calls see the update.
\<close>

definition RunE ::
  "env \<Rightarrow> PrometheusAdapterServerOptions \<Rightarrow> string list \<Rightarrow> chan
     \<Rightarrow> go_error option \<times> event list" where
  "RunE env opts args stopCh =
     (case opts_Complete env (base opts) of
        (Some err, b) \<Rightarrow> (Some err, [Ext (Call_Complete (base opts))])
      | (None, b) \<Rightarrow>
          (case opts_Validate env b args of
             Some err \<Rightarrow> (Some err, [Ext (Call_Complete (base opts)), Ext (Call_Validate b args)])
           | None \<Rightarrow>
               (case RunCustomMetricsAdapterServer env (opts\<lparr>base := b\<rparr>) stopCh of
                  (err, t) \<Rightarrow>
                    (err, [Ext (Call_Complete (base opts)), Ext (Call_Validate b args)] @ t))))"

section \<open>Reading a trace\<close>

text \<open>
  The request for the lister's cluster configuration (lines 139 to 146 of the source):
  which call is made, and what it answers.
\<close>

definition lister_call :: "PrometheusAdapterServerOptions \<Rightarrow> call" where
  "lister_call opts =
     (if length (RemoteKubeConfigFile opts) > 0
      then Call_ClientConfig (RemoteKubeConfigFile opts) else Call_InClusterConfig)"

definition lister_clientConfig :: "env \<Rightarrow> PrometheusAdapterServerOptions \<Rightarrow> go_error + rest_Config" where
  "lister_clientConfig env opts =
     (if length (RemoteKubeConfigFile opts) > 0
      then clientcmd_ClientConfig env (RemoteKubeConfigFile opts) else rest_InClusterConfig env)"

text \<open>The events of a cluster client factory that succeeded, the server configuration
  ahead of them.\<close>

definition cluster_events ::
  "PrometheusAdapterServerOptions \<Rightarrow> rest_Config \<Rightarrow> DiscoveryClient \<Rightarrow> RESTMapper
     \<Rightarrow> event list" where
  "cluster_events opts clientConfig discoveryClient dynamicMapper =
     [Ext (Call_Config (base opts)),
      Ext (lister_call opts),
      Ext (Call_NewDiscoveryClientForConfig clientConfig),
      Ext (Call_NewRESTMapper discoveryClient (DiscoveryInterval opts)),
      Ext (Call_NewClientPool clientConfig dynamicMapper)]"

text \<open>The base URLs handed to \<^verbatim>\<open>prom.NewGenericAPIClient\<close> and the tags handed to
  \<^verbatim>\<open>mprom.InstrumentGenericAPIClient\<close>, in the order of the calls.\<close>

fun generic_client_URLs :: "event list \<Rightarrow> URL list" where
  "generic_client_URLs [] = []"
| "generic_client_URLs (Ext (Call_NewGenericAPIClient c u) # t) = u # generic_client_URLs t"
| "generic_client_URLs (e # t) = generic_client_URLs t"

fun instrument_tags :: "event list \<Rightarrow> string list" where
  "instrument_tags [] = []"
| "instrument_tags (Ext (Call_InstrumentGenericAPIClient g tag) # t) = tag # instrument_tags t"
| "instrument_tags (e # t) = instrument_tags t"

text \<open>Whether the call of an event was answered with an error.\<close>

fun failed :: "env \<Rightarrow> event \<Rightarrow> bool" where
  "failed env (Ext (Call_Complete b)) = (fst (opts_Complete env b) \<noteq> None)"
| "failed env (Ext (Call_Validate b args)) = (opts_Validate env b args \<noteq> None)"
| "failed env (Ext (Call_Config b)) = isl (opts_Config env b)"
| "failed env (Ext (Call_ClientConfig path)) = isl (clientcmd_ClientConfig env path)"
| "failed env (Ext Call_InClusterConfig) = isl (rest_InClusterConfig env)"
| "failed env (Ext (Call_TransportFor c)) = isl (rest_TransportFor env c)"
| "failed env (Ext (Call_NewDiscoveryClientForConfig c)) =
     isl (discovery_NewDiscoveryClientForConfig env c)"
| "failed env (Ext (Call_NewRESTMapper d i)) = isl (dynamicmapper_NewRESTMapper env d i)"
| "failed env (Ext (Call_url_Parse s)) = isl (url_Parse env s)"
| "failed env (Ext (Call_New c n p)) = isl (Config_New env c n p)"
| "failed env (Ext (Call_Run s ch)) = (Server_Run env s ch \<noteq> None)"
| "failed env (MakeHTTPClient a path calls) = (snd (fst (makeHTTPClient env a path)) \<noteq> None)"
| "failed env (Ext (Call_NewClientPool c m)) = False"
| "failed env (Ext (Call_NewGenericAPIClient c u)) = False"
| "failed env (Ext (Call_InstrumentGenericAPIClient g tag)) = False"
| "failed env (Ext (Call_NewClientForAPI g)) = False"
| "failed env (Ext (Call_NewPrometheusProvider m p c l r1 r2 ch)) = False"

section \<open>The startup sequence\<close>

text \<open>
  The steps of the Server Runner's sequence, with the parsing of the backend's base URL
  as a step of its own. The components that own them: the cluster client factory
  resolves the cluster credentials and builds the discovery client, the mapper and the
  object client pool; the credential resolver is \<open>makeHTTPClient\<close>; the backend client
  factory makes the three backend clients.
\<close>

datatype stage =
    CompleteConfiguration
  | ClusterCredentials
  | ParseBackendURL
  | BackendCredentials
  | BackendClient
  | ComposeProvider
  | ServerConstruction
  | Serve

fun stage_of :: "event \<Rightarrow> stage" where
  "stage_of (Ext (Call_Complete b)) = CompleteConfiguration"
| "stage_of (Ext (Call_Validate b args)) = CompleteConfiguration"
| "stage_of (Ext (Call_Config b)) = CompleteConfiguration"
| "stage_of (Ext (Call_ClientConfig path)) = ClusterCredentials"
| "stage_of (Ext Call_InClusterConfig) = ClusterCredentials"
| "stage_of (Ext (Call_NewDiscoveryClientForConfig c)) = ClusterCredentials"
| "stage_of (Ext (Call_NewRESTMapper d i)) = ClusterCredentials"
| "stage_of (Ext (Call_NewClientPool c m)) = ClusterCredentials"
| "stage_of (Ext (Call_url_Parse s)) = ParseBackendURL"
| "stage_of (MakeHTTPClient a path calls) = BackendCredentials"
| "stage_of (Ext (Call_TransportFor c)) = BackendCredentials"
| "stage_of (Ext (Call_NewGenericAPIClient c u)) = BackendClient"
| "stage_of (Ext (Call_InstrumentGenericAPIClient g tag)) = BackendClient"
| "stage_of (Ext (Call_NewClientForAPI g)) = BackendClient"
| "stage_of (Ext (Call_NewPrometheusProvider m p c l r1 r2 ch)) = ComposeProvider"
| "stage_of (Ext (Call_New c n p)) = ServerConstruction"
| "stage_of (Ext (Call_Run s ch)) = Serve"






section \<open>Concrete environments\<close>

text \<open>
  A deployment in which every collaborator answers, and variations of it. The quoting
  and the rendering are those of \<^verbatim>\<open>strconv.Quote\<close> and \<^verbatim>\<open>(*url.URL).String\<close> on plain
  ASCII without characters to escape; \<open>parse_table\<close> lists the answers of
  \<^verbatim>\<open>url.Parse\<close> on the inputs used below: it lower-cases the scheme, and its error
  names the operation, the URL it was given and the reason. The one input below that
  does not parse is \<^verbatim>\<open>://prom.example:9090\<close>, a URL without its scheme; the table
  answers every input it does not list in the same way.
\<close>

definition quote_plain :: "string \<Rightarrow> string" where
  "quote_plain s = CHR 0x22 # s @ [CHR 0x22]"

definition render_URL :: "URL \<Rightarrow> string" where
  "render_URL u =
     Scheme u @ ''://'' @ Host u @ Path u
       @ (if RawQuery u = [] then [] else ''?'' @ RawQuery u)
       @ (if Fragment u = [] then [] else ''#'' @ Fragment u)"

definition prom_example :: URL where
  "prom_example = \<lparr>Scheme = ''https'', Host = ''prom.example:9090'', Path = [],
                    RawQuery = [], Fragment = []\<rparr>"

definition parse_table :: "string \<Rightarrow> go_error + URL" where
  "parse_table s =
     (if s = ''https://prom.example:9090'' then Inr prom_example
      else if s = ''HTTPS://prom.example:9090'' then Inr prom_example
      else if s = ''https://prom.example:9090/api?timeout=30s''
        then Inr (prom_example\<lparr>Path := ''/api'', RawQuery := ''timeout=30s''\<rparr>)
      else Inl (errorString (''parse '' @ s @ '': missing protocol scheme'')))"

definition healthy :: env where
  "healthy = \<lparr>
     opts_Complete = (\<lambda>b. (None, b)),
     opts_Validate = (\<lambda>b args. None),
     opts_Config = (\<lambda>b. Inr \<lparr>GenericConfig = \<lparr>EnableMetrics = False\<rparr>\<rparr>),
     clientcmd_ClientConfig = (\<lambda>path. Inr (RestConfig path)),
     rest_InClusterConfig = Inr (RestConfig ''in-cluster''),
     rest_TransportFor = (\<lambda>c. Inr (RoundTripper ''tls'')),
     discovery_NewDiscoveryClientForConfig = (\<lambda>c. Inr (DiscoveryClient ''discovery'')),
     dynamicmapper_NewRESTMapper = (\<lambda>d i. Inr (RESTMapper ''mapper'')),
     url_Parse = parse_table,
     URL_String = render_URL,
     strconv_Quote = quote_plain,
     Config_New = (\<lambda>c n p. Inr (Server n)),
     Server_Run = (\<lambda>s c. None)\<rparr>"

definition absent :: env where
  "absent = healthy\<lparr>
     clientcmd_ClientConfig :=
       (\<lambda>path. Inl (errorString (''stat '' @ path @ '': no such file or directory''))),
     rest_InClusterConfig :=
       Inl (errorString ''unable to load in-cluster configuration'')\<rparr>"

definition bad_tls :: env where
  "bad_tls = healthy\<lparr>
     rest_TransportFor :=
       (\<lambda>c. Inl (errorString ''tls: failed to find any PEM data in certificate input''))\<rparr>"

definition no_discovery :: env where
  "no_discovery = healthy\<lparr>
     dynamicmapper_NewRESTMapper :=
       (\<lambda>d i. Inl (errorString ''the server could not find the requested resource''))\<rparr>"

text \<open>The intervals of the command's defaults, no kubeconfig and no backend
  authentication, and the URL of a backend.\<close>

definition flags :: PrometheusAdapterServerOptions where
  "flags = \<lparr>base = BaseOptions ''defaults'', RemoteKubeConfigFile = [],
     MetricsRelistInterval = 600000000000, RateInterval = 300000000000,
     DiscoveryInterval = 600000000000, PrometheusURL = ''https://prom.example:9090'',
     PrometheusAuthInCluster = False, PrometheusAuthConf = [], LabelPrefix = []\<rparr>"

section \<open>The credential resolver\<close>

text \<open>
  Claim C1. With the in-cluster flag set and a non-empty kubeconfig path,
  \<open>makeHTTPClient\<close> returns no client and the error of the conflicting configuration
  (\<^verbatim>\<open>ConfigConflict\<close>), and its trace is empty: it has called no collaborator, so it has
  read no file and no environment variable and opened no connection.
\<close>

theorem makeHTTPClient_conflict:
  "inClusterAuth \<Longrightarrow> kubeConfigPath \<noteq> [] \<Longrightarrow>
     makeHTTPClient env inClusterAuth kubeConfigPath =
       ((None, Some (errorString
          ''may not use both in-cluster auth and an explicit kubeconfig at the same time'')), [])"
  by (simp add: makeHTTPClient_def)

theorem makeHTTPClient_conflict_witness:
  "makeHTTPClient healthy True ''/etc/prom/kubeconfig'' =
       ((None, Some (errorString
          ''may not use both in-cluster auth and an explicit kubeconfig at the same time'')), [])"
  using makeHTTPClient_conflict [of True "''/etc/prom/kubeconfig''" healthy] by simp

text \<open>
  Claim C3. On an input without the conflict \<open>makeHTTPClient\<close> is this case split.
  \<^item> Neither source is set: the default client, and an empty trace.
  \<^item> A path is set: the configuration is loaded from that path. When the load fails
    the result is the error of the failed load with the cause's message at its end
    (\<^verbatim>\<open>CredentialLoadError\<close>), and nothing else is called.
  \<^item> The in-cluster flag is set: the in-cluster configuration is asked for, and its
    failure is reported the same way.
  \<^item> After a configuration is resolved the transport is derived from it. When that
    fails the result is the error of the transport (\<^verbatim>\<open>TransportError\<close>); otherwise the
    result is a client with that transport and no error.
\<close>

theorem makeHTTPClient_cases:
  "(\<not> inClusterAuth \<and> kubeConfigPath = [] \<longrightarrow>
      makeHTTPClient env inClusterAuth kubeConfigPath = ((Some DefaultClient, None), []))
   \<and> (\<not> inClusterAuth \<and> kubeConfigPath \<noteq> [] \<longrightarrow>
      (case clientcmd_ClientConfig env kubeConfigPath of
         Inl err \<Rightarrow>
           makeHTTPClient env inClusterAuth kubeConfigPath =
             ((None, Some (errorString
                (''unable to construct  auth configuration from ''
                   @ strconv_Quote env kubeConfigPath
                   @ '' for connecting to Prometheus: '' @ Error err))),
              [Call_ClientConfig kubeConfigPath])
       | Inr authConf \<Rightarrow>
           (case rest_TransportFor env authConf of
              Inl err \<Rightarrow>
                makeHTTPClient env inClusterAuth kubeConfigPath =
                  ((None, Some (errorString
                     (''unable to construct client transport for connecting to Prometheus: ''
                        @ Error err))),
                   [Call_ClientConfig kubeConfigPath, Call_TransportFor authConf])
            | Inr tr \<Rightarrow>
                makeHTTPClient env inClusterAuth kubeConfigPath =
                  ((Some (Client tr), None),
                   [Call_ClientConfig kubeConfigPath, Call_TransportFor authConf]))))
   \<and> (inClusterAuth \<and> kubeConfigPath = [] \<longrightarrow>
      (case rest_InClusterConfig env of
         Inl err \<Rightarrow>
           makeHTTPClient env inClusterAuth kubeConfigPath =
             ((None, Some (errorString
                (''unable to construct in-cluster auth configuration for connecting to Prometheus: ''
                   @ Error err))),
              [Call_InClusterConfig])
       | Inr authConf \<Rightarrow>
           (case rest_TransportFor env authConf of
              Inl err \<Rightarrow>
                makeHTTPClient env inClusterAuth kubeConfigPath =
                  ((None, Some (errorString
                     (''unable to construct client transport for connecting to Prometheus: ''
                        @ Error err))),
                   [Call_InClusterConfig, Call_TransportFor authConf])
            | Inr tr \<Rightarrow>
                makeHTTPClient env inClusterAuth kubeConfigPath =
                  ((Some (Client tr), None),
                   [Call_InClusterConfig, Call_TransportFor authConf]))))"
  by (simp add: makeHTTPClient_def split: sum.splits)

theorem makeHTTPClient_cases_witness:
  "makeHTTPClient healthy False [] = ((Some DefaultClient, None), [])
   \<and> makeHTTPClient healthy False ''/etc/prom/kubeconfig'' =
       ((Some (Client (RoundTripper ''tls'')), None),
        [Call_ClientConfig ''/etc/prom/kubeconfig'',
         Call_TransportFor (RestConfig ''/etc/prom/kubeconfig'')])
   \<and> makeHTTPClient absent False ''/etc/prom/kubeconfig'' =
       ((None, Some (errorString
          (''unable to construct  auth configuration from ''
             @ quote_plain ''/etc/prom/kubeconfig''
             @ '' for connecting to Prometheus: ''
             @ ''stat /etc/prom/kubeconfig: no such file or directory''))),
        [Call_ClientConfig ''/etc/prom/kubeconfig''])
   \<and> makeHTTPClient absent True [] =
       ((None, Some (errorString
          (''unable to construct in-cluster auth configuration for connecting to Prometheus: ''
             @ ''unable to load in-cluster configuration''))),
        [Call_InClusterConfig])
   \<and> makeHTTPClient bad_tls True [] =
       ((None, Some (errorString
          (''unable to construct client transport for connecting to Prometheus: ''
             @ ''tls: failed to find any PEM data in certificate input''))),
        [Call_InClusterConfig, Call_TransportFor (RestConfig ''in-cluster'')])"
  using makeHTTPClient_cases [of False "[]" healthy]
    makeHTTPClient_cases [of False "''/etc/prom/kubeconfig''" healthy]
    makeHTTPClient_cases [of False "''/etc/prom/kubeconfig''" absent]
    makeHTTPClient_cases [of True "[]" absent]
    makeHTTPClient_cases [of True "[]" bad_tls]
  by (simp add: healthy_def absent_def bad_tls_def)

text \<open>
  Claim C9. Whatever the input and whatever the collaborators answer, the pair that
  \<open>makeHTTPClient\<close> returns holds a client and a nil error, or a nil client and an
  error: never both, never neither.
\<close>

theorem makeHTTPClient_exactly_one:
  "(\<exists>c. fst (makeHTTPClient env inClusterAuth kubeConfigPath) = (Some c, None))
   \<or> (\<exists>e. fst (makeHTTPClient env inClusterAuth kubeConfigPath) = (None, Some e))"
  by (simp add: makeHTTPClient_def split: sum.splits)

section \<open>Running the steps\<close>

text \<open>How the sequencing operators behave on a single call.\<close>

lemma andThen_ext:
  "andThen (ext c r) f =
     (case r of Inl e \<Rightarrow> (Inl e, [Ext c])
      | Inr x \<Rightarrow> (fst (f x), Ext c # snd (f x)))"
  by (simp add: andThen_def ext_def split: sum.splits prod.splits)

lemma andThen_Inl: "andThen (Inl e, t) f = (Inl e, t)"
  by (simp add: andThen_def)

lemma andThen_Inr: "andThen (Inr x, t) f = (fst (f x), t @ snd (f x))"
  by (simp add: andThen_def split: prod.splits)

lemma orErrorf_ext:
  "orErrorf msg (ext c r) =
     ext c (case r of Inl err \<Rightarrow> Inl (errorString (msg @ Error err)) | Inr x \<Rightarrow> Inr x)"
  by (simp add: orErrorf_def ext_def split: sum.splits)

lemma andThen_dead_check:
  "andThen (orErrorf msg (nilable None, [])) f = f ()"
  by (simp add: andThen_def orErrorf_def nilable_def split: prod.splits)

lemma lister_step:
  "orErrorf msg
     (if RemoteKubeConfigFile opts \<noteq> []
      then ext (Call_ClientConfig (RemoteKubeConfigFile opts))
             (clientcmd_ClientConfig env (RemoteKubeConfigFile opts))
      else ext Call_InClusterConfig (rest_InClusterConfig env))
   = ext (lister_call opts)
       (case lister_clientConfig env opts of
          Inl err \<Rightarrow> Inl (errorString (msg @ Error err)) | Inr x \<Rightarrow> Inr x)"
  by (simp add: lister_call_def lister_clientConfig_def orErrorf_ext)

lemma returned_pair: "returned (r, t) = ((case r of Inl e \<Rightarrow> Some e | Inr u \<Rightarrow> None), t)"
  by (simp add: returned_def split: sum.splits)

lemma fst_ext: "fst (ext c r) = r"
  by (simp add: ext_def)

lemma snd_ext: "snd (ext c r) = [Ext c]"
  by (simp add: ext_def)

lemma returned_nilable:
  "(case nilable r of Inl e \<Rightarrow> Some e | Inr u \<Rightarrow> None) = r"
  by (simp add: nilable_def split: option.splits)

lemmas run_simps =
  RunCustomMetricsAdapterServer_def lister_step andThen_ext orErrorf_ext andThen_dead_check
  andThen_Inl andThen_Inr returned_pair fst_ext snd_ext returned_nilable Let_def

lemma Run_Config_Inl:
  assumes "opts_Config env (base opts) = Inl e"
  shows "RunCustomMetricsAdapterServer env opts stopCh = (Some e, [Ext (Call_Config (base opts))])"
  using assms by (simp add: run_simps)

lemma Run_lister_Inl:
  assumes "opts_Config env (base opts) = Inr cfg"
    and "lister_clientConfig env opts = Inl err"
  shows "RunCustomMetricsAdapterServer env opts stopCh =
     (Some (errorString
        (''unable to construct lister client config to initialize provider: '' @ Error err)),
      [Ext (Call_Config (base opts)), Ext (lister_call opts)])"
  using assms by (simp add: run_simps)

lemma Run_discovery_Inl:
  assumes "opts_Config env (base opts) = Inr cfg"
    and "lister_clientConfig env opts = Inr clientConfig"
    and "discovery_NewDiscoveryClientForConfig env clientConfig = Inl err"
  shows "RunCustomMetricsAdapterServer env opts stopCh =
     (Some (errorString
        (''unable to construct discovery client for dynamic client: '' @ Error err)),
      [Ext (Call_Config (base opts)), Ext (lister_call opts),
       Ext (Call_NewDiscoveryClientForConfig clientConfig)])"
  using assms by (simp add: run_simps)

lemma Run_mapper_Inl:
  assumes "opts_Config env (base opts) = Inr cfg"
    and "lister_clientConfig env opts = Inr clientConfig"
    and "discovery_NewDiscoveryClientForConfig env clientConfig = Inr discoveryClient"
    and "dynamicmapper_NewRESTMapper env discoveryClient (DiscoveryInterval opts) = Inl err"
  shows "RunCustomMetricsAdapterServer env opts stopCh =
     (Some (errorString (''unable to construct dynamic discovery mapper: '' @ Error err)),
      [Ext (Call_Config (base opts)), Ext (lister_call opts),
       Ext (Call_NewDiscoveryClientForConfig clientConfig),
       Ext (Call_NewRESTMapper discoveryClient (DiscoveryInterval opts))])"
  using assms by (simp add: run_simps)

lemma Run_Parse_Inl:
  assumes "opts_Config env (base opts) = Inr cfg"
    and "lister_clientConfig env opts = Inr clientConfig"
    and "discovery_NewDiscoveryClientForConfig env clientConfig = Inr discoveryClient"
    and "dynamicmapper_NewRESTMapper env discoveryClient (DiscoveryInterval opts) = Inr dynamicMapper"
    and "url_Parse env (PrometheusURL opts) = Inl err"
  shows "RunCustomMetricsAdapterServer env opts stopCh =
     (Some (errorString (''invalid Prometheus URL <nil>: '' @ Error err)),
      cluster_events opts clientConfig discoveryClient dynamicMapper
        @ [Ext (Call_url_Parse (PrometheusURL opts))])"
  using assms by (simp add: run_simps cluster_events_def)

lemma Run_makeHTTPClient_err:
  assumes "opts_Config env (base opts) = Inr cfg"
    and "lister_clientConfig env opts = Inr clientConfig"
    and "discovery_NewDiscoveryClientForConfig env clientConfig = Inr discoveryClient"
    and "dynamicmapper_NewRESTMapper env discoveryClient (DiscoveryInterval opts) = Inr dynamicMapper"
    and "url_Parse env (PrometheusURL opts) = Inr baseURL"
    and "makeHTTPClient env (PrometheusAuthInCluster opts) (PrometheusAuthConf opts)
           = ((c, Some e), calls)"
  shows "RunCustomMetricsAdapterServer env opts stopCh =
     (Some e,
      cluster_events opts clientConfig discoveryClient dynamicMapper
        @ [Ext (Call_url_Parse (PrometheusURL opts)),
           MakeHTTPClient (PrometheusAuthInCluster opts) (PrometheusAuthConf opts) calls])"
  using assms by (simp add: run_simps cluster_events_def)

lemma Run_backend:
  assumes "opts_Config env (base opts) = Inr cfg"
    and "lister_clientConfig env opts = Inr clientConfig"
    and "discovery_NewDiscoveryClientForConfig env clientConfig = Inr discoveryClient"
    and "dynamicmapper_NewRESTMapper env discoveryClient (DiscoveryInterval opts) = Inr dynamicMapper"
    and "url_Parse env (PrometheusURL opts) = Inr baseURL"
    and "makeHTTPClient env (PrometheusAuthInCluster opts) (PrometheusAuthConf opts)
           = ((promHTTPClient, None), calls)"
    and "promClient = NewClientForAPI (InstrumentGenericAPIClient
           (NewGenericAPIClient promHTTPClient baseURL) (URL_String env baseURL))"
    and "cmProvider = NewPrometheusProvider dynamicMapper
           (NewClientPool clientConfig dynamicMapper) promClient
           (LabelPrefix opts) (MetricsRelistInterval opts) (RateInterval opts) stopCh"
    and "config = cfg\<lparr>GenericConfig := (GenericConfig cfg)\<lparr>EnableMetrics := True\<rparr>\<rparr>"
  shows "RunCustomMetricsAdapterServer env opts stopCh =
     (case Config_New env config ''prometheus-custom-metrics-adapter'' cmProvider of
        Inl e \<Rightarrow> Some e | Inr server \<Rightarrow> Server_Run env server stopCh,
      cluster_events opts clientConfig discoveryClient dynamicMapper
        @ [Ext (Call_url_Parse (PrometheusURL opts)),
           MakeHTTPClient (PrometheusAuthInCluster opts) (PrometheusAuthConf opts) calls,
           Ext (Call_NewGenericAPIClient promHTTPClient baseURL),
           Ext (Call_InstrumentGenericAPIClient
                  (NewGenericAPIClient promHTTPClient baseURL) (URL_String env baseURL)),
           Ext (Call_NewClientForAPI (InstrumentGenericAPIClient
                  (NewGenericAPIClient promHTTPClient baseURL) (URL_String env baseURL))),
           Ext (Call_NewPrometheusProvider dynamicMapper
                  (NewClientPool clientConfig dynamicMapper) promClient
                  (LabelPrefix opts) (MetricsRelistInterval opts) (RateInterval opts) stopCh),
           Ext (Call_New config ''prometheus-custom-metrics-adapter'' cmProvider)]
        @ (case Config_New env config ''prometheus-custom-metrics-adapter'' cmProvider of
             Inl e \<Rightarrow> [] | Inr server \<Rightarrow> [Ext (Call_Run server stopCh)]))"
  using assms
  by (simp add: run_simps cluster_events_def split: sum.splits)


lemma Run_take4:
  assumes "opts_Config env (base opts) = Inr cfg"
    and "lister_clientConfig env opts = Inr clientConfig"
    and "discovery_NewDiscoveryClientForConfig env clientConfig = Inr discoveryClient"
  shows "take 4 (snd (RunCustomMetricsAdapterServer env opts stopCh)) =
           [Ext (Call_Config (base opts)), Ext (lister_call opts),
            Ext (Call_NewDiscoveryClientForConfig clientConfig),
            Ext (Call_NewRESTMapper discoveryClient (DiscoveryInterval opts))]"
proof (cases "dynamicmapper_NewRESTMapper env discoveryClient (DiscoveryInterval opts)")
  case (Inl err)
  then show ?thesis using assms by (simp add: Run_mapper_Inl)
next
  case (Inr dynamicMapper)
  then show ?thesis using assms by (simp add: run_simps)
qed

lemma stage_of_lister_call [simp]: "stage_of (Ext (lister_call opts)) = ClusterCredentials"
  by (simp add: lister_call_def)

lemma failed_lister_call [simp]:
  "failed env (Ext (lister_call opts)) = isl (lister_clientConfig env opts)"
  by (simp add: lister_call_def lister_clientConfig_def)

text \<open>Every run ends in one of eight ways: a step fails, or the server has run.\<close>

lemma Run_outcomes [case_names Config lister discovery mapper parse credentials construct serve]:
  obtains
    e where "opts_Config env (base opts) = Inl e"
      and "RunCustomMetricsAdapterServer env opts stopCh = (Some e, [Ext (Call_Config (base opts))])"
  | cfg err where "opts_Config env (base opts) = Inr cfg"
      and "lister_clientConfig env opts = Inl err"
      and "RunCustomMetricsAdapterServer env opts stopCh =
         (Some (errorString
            (''unable to construct lister client config to initialize provider: '' @ Error err)),
          [Ext (Call_Config (base opts)), Ext (lister_call opts)])"
  | cfg clientConfig err where "opts_Config env (base opts) = Inr cfg"
      and "lister_clientConfig env opts = Inr clientConfig"
      and "discovery_NewDiscoveryClientForConfig env clientConfig = Inl err"
      and "RunCustomMetricsAdapterServer env opts stopCh =
         (Some (errorString
            (''unable to construct discovery client for dynamic client: '' @ Error err)),
          [Ext (Call_Config (base opts)), Ext (lister_call opts),
           Ext (Call_NewDiscoveryClientForConfig clientConfig)])"
  | cfg clientConfig discoveryClient err where "opts_Config env (base opts) = Inr cfg"
      and "lister_clientConfig env opts = Inr clientConfig"
      and "discovery_NewDiscoveryClientForConfig env clientConfig = Inr discoveryClient"
      and "dynamicmapper_NewRESTMapper env discoveryClient (DiscoveryInterval opts) = Inl err"
      and "RunCustomMetricsAdapterServer env opts stopCh =
         (Some (errorString (''unable to construct dynamic discovery mapper: '' @ Error err)),
          [Ext (Call_Config (base opts)), Ext (lister_call opts),
           Ext (Call_NewDiscoveryClientForConfig clientConfig),
           Ext (Call_NewRESTMapper discoveryClient (DiscoveryInterval opts))])"
  | cfg clientConfig discoveryClient dynamicMapper err where
      "opts_Config env (base opts) = Inr cfg"
      and "lister_clientConfig env opts = Inr clientConfig"
      and "discovery_NewDiscoveryClientForConfig env clientConfig = Inr discoveryClient"
      and "dynamicmapper_NewRESTMapper env discoveryClient (DiscoveryInterval opts) = Inr dynamicMapper"
      and "url_Parse env (PrometheusURL opts) = Inl err"
      and "RunCustomMetricsAdapterServer env opts stopCh =
         (Some (errorString (''invalid Prometheus URL <nil>: '' @ Error err)),
          cluster_events opts clientConfig discoveryClient dynamicMapper
            @ [Ext (Call_url_Parse (PrometheusURL opts))])"
  | cfg clientConfig discoveryClient dynamicMapper baseURL c e calls where
      "opts_Config env (base opts) = Inr cfg"
      and "lister_clientConfig env opts = Inr clientConfig"
      and "discovery_NewDiscoveryClientForConfig env clientConfig = Inr discoveryClient"
      and "dynamicmapper_NewRESTMapper env discoveryClient (DiscoveryInterval opts) = Inr dynamicMapper"
      and "url_Parse env (PrometheusURL opts) = Inr baseURL"
      and "makeHTTPClient env (PrometheusAuthInCluster opts) (PrometheusAuthConf opts)
             = ((c, Some e), calls)"
      and "RunCustomMetricsAdapterServer env opts stopCh =
         (Some e,
          cluster_events opts clientConfig discoveryClient dynamicMapper
            @ [Ext (Call_url_Parse (PrometheusURL opts)),
               MakeHTTPClient (PrometheusAuthInCluster opts) (PrometheusAuthConf opts) calls])"
  | cfg clientConfig discoveryClient dynamicMapper baseURL promHTTPClient calls backend config
      cmProvider e where
      "opts_Config env (base opts) = Inr cfg"
      and "lister_clientConfig env opts = Inr clientConfig"
      and "discovery_NewDiscoveryClientForConfig env clientConfig = Inr discoveryClient"
      and "dynamicmapper_NewRESTMapper env discoveryClient (DiscoveryInterval opts) = Inr dynamicMapper"
      and "url_Parse env (PrometheusURL opts) = Inr baseURL"
      and "makeHTTPClient env (PrometheusAuthInCluster opts) (PrometheusAuthConf opts)
             = ((promHTTPClient, None), calls)"
      and "map stage_of backend = [BackendClient, BackendClient, BackendClient, ComposeProvider]"
      and "\<forall>ev \<in> set backend. \<not> failed env ev"
      and "Config_New env config ''prometheus-custom-metrics-adapter'' cmProvider = Inl e"
      and "RunCustomMetricsAdapterServer env opts stopCh =
         (Some e,
          cluster_events opts clientConfig discoveryClient dynamicMapper
            @ [Ext (Call_url_Parse (PrometheusURL opts)),
               MakeHTTPClient (PrometheusAuthInCluster opts) (PrometheusAuthConf opts) calls]
            @ backend
            @ [Ext (Call_New config ''prometheus-custom-metrics-adapter'' cmProvider)])"
  | cfg clientConfig discoveryClient dynamicMapper baseURL promHTTPClient calls backend config
      cmProvider server where
      "opts_Config env (base opts) = Inr cfg"
      and "lister_clientConfig env opts = Inr clientConfig"
      and "discovery_NewDiscoveryClientForConfig env clientConfig = Inr discoveryClient"
      and "dynamicmapper_NewRESTMapper env discoveryClient (DiscoveryInterval opts) = Inr dynamicMapper"
      and "url_Parse env (PrometheusURL opts) = Inr baseURL"
      and "makeHTTPClient env (PrometheusAuthInCluster opts) (PrometheusAuthConf opts)
             = ((promHTTPClient, None), calls)"
      and "map stage_of backend = [BackendClient, BackendClient, BackendClient, ComposeProvider]"
      and "\<forall>ev \<in> set backend. \<not> failed env ev"
      and "Config_New env config ''prometheus-custom-metrics-adapter'' cmProvider = Inr server"
      and "RunCustomMetricsAdapterServer env opts stopCh =
         (Server_Run env server stopCh,
          cluster_events opts clientConfig discoveryClient dynamicMapper
            @ [Ext (Call_url_Parse (PrometheusURL opts)),
               MakeHTTPClient (PrometheusAuthInCluster opts) (PrometheusAuthConf opts) calls]
            @ backend
            @ [Ext (Call_New config ''prometheus-custom-metrics-adapter'' cmProvider),
               Ext (Call_Run server stopCh)])"
proof (cases "opts_Config env (base opts)")
  case (Inl e)
  show ?thesis by (rule that(1) [OF Inl Run_Config_Inl [OF Inl]])
next
  case cfg: (Inr cfg)
  show ?thesis
  proof (cases "lister_clientConfig env opts")
    case (Inl err)
    show ?thesis by (rule that(2) [OF cfg Inl Run_lister_Inl [OF cfg Inl]])
  next
    case cc: (Inr clientConfig)
    show ?thesis
    proof (cases "discovery_NewDiscoveryClientForConfig env clientConfig")
      case (Inl err)
      show ?thesis by (rule that(3) [OF cfg cc Inl Run_discovery_Inl [OF cfg cc Inl]])
    next
      case dc: (Inr discoveryClient)
      show ?thesis
      proof (cases "dynamicmapper_NewRESTMapper env discoveryClient (DiscoveryInterval opts)")
        case (Inl err)
        show ?thesis by (rule that(4) [OF cfg cc dc Inl Run_mapper_Inl [OF cfg cc dc Inl]])
      next
        case m: (Inr dynamicMapper)
        show ?thesis
        proof (cases "url_Parse env (PrometheusURL opts)")
          case (Inl err)
          show ?thesis by (rule that(5) [OF cfg cc dc m Inl Run_Parse_Inl [OF cfg cc dc m Inl]])
        next
          case u: (Inr baseURL)
          obtain c err calls where h:
            "makeHTTPClient env (PrometheusAuthInCluster opts) (PrometheusAuthConf opts)
               = ((c, err), calls)"
            by (metis prod.exhaust)
          show ?thesis
          proof (cases err)
            case (Some e)
            with h have h': "makeHTTPClient env (PrometheusAuthInCluster opts)
                (PrometheusAuthConf opts) = ((c, Some e), calls)"
              by simp
            show ?thesis
              by (rule that(6) [OF cfg cc dc m u h' Run_makeHTTPClient_err [OF cfg cc dc m u h']])
          next
            case None
            define backend where "backend =
              [Ext (Call_NewGenericAPIClient c baseURL),
               Ext (Call_InstrumentGenericAPIClient
                      (NewGenericAPIClient c baseURL) (URL_String env baseURL)),
               Ext (Call_NewClientForAPI (InstrumentGenericAPIClient
                      (NewGenericAPIClient c baseURL) (URL_String env baseURL))),
               Ext (Call_NewPrometheusProvider dynamicMapper
                      (NewClientPool clientConfig dynamicMapper)
                      (NewClientForAPI (InstrumentGenericAPIClient
                         (NewGenericAPIClient c baseURL) (URL_String env baseURL)))
                      (LabelPrefix opts) (MetricsRelistInterval opts) (RateInterval opts)
                      stopCh)]"
            have st: "map stage_of backend = [BackendClient, BackendClient, BackendClient, ComposeProvider]"
              and nf: "\<forall>ev \<in> set backend. \<not> failed env ev"
              by (simp_all add: backend_def)
            let ?config = "cfg\<lparr>GenericConfig := (GenericConfig cfg)\<lparr>EnableMetrics := True\<rparr>\<rparr>"
            let ?prov = "NewPrometheusProvider dynamicMapper
                      (NewClientPool clientConfig dynamicMapper)
                      (NewClientForAPI (InstrumentGenericAPIClient
                         (NewGenericAPIClient c baseURL) (URL_String env baseURL)))
                      (LabelPrefix opts) (MetricsRelistInterval opts) (RateInterval opts)
                      stopCh"
            have h': "makeHTTPClient env (PrometheusAuthInCluster opts) (PrometheusAuthConf opts)
               = ((c, None), calls)"
              using h None by simp
            note run = Run_backend [OF cfg cc dc m u h' refl refl refl, of stopCh]
            show ?thesis
            proof (cases "Config_New env ?config ''prometheus-custom-metrics-adapter'' ?prov")
              case (Inl e)
              have "RunCustomMetricsAdapterServer env opts stopCh =
                 (Some e,
                  cluster_events opts clientConfig discoveryClient dynamicMapper
                    @ [Ext (Call_url_Parse (PrometheusURL opts)),
                       MakeHTTPClient (PrometheusAuthInCluster opts) (PrometheusAuthConf opts) calls]
                    @ backend
                    @ [Ext (Call_New ?config ''prometheus-custom-metrics-adapter'' ?prov)])"
                using run Inl by (simp add: backend_def)
              then show ?thesis by (rule that(7) [OF cfg cc dc m u h' st nf Inl])
            next
              case (Inr server)
              have "RunCustomMetricsAdapterServer env opts stopCh =
                 (Server_Run env server stopCh,
                  cluster_events opts clientConfig discoveryClient dynamicMapper
                    @ [Ext (Call_url_Parse (PrometheusURL opts)),
                       MakeHTTPClient (PrometheusAuthInCluster opts) (PrometheusAuthConf opts) calls]
                    @ backend
                    @ [Ext (Call_New ?config ''prometheus-custom-metrics-adapter'' ?prov),
                       Ext (Call_Run server stopCh)])"
                using run Inr by (simp add: backend_def)
              then show ?thesis by (rule that(8) [OF cfg cc dc m u h' st nf Inr])
            qed
          qed
        qed
      qed
    qed
  qed
qed


lemma stages_cluster_events [simp]:
  "map stage_of (cluster_events opts cc dc m) =
     [CompleteConfiguration, ClusterCredentials, ClusterCredentials, ClusterCredentials,
      ClusterCredentials]"
  by (simp add: cluster_events_def)

lemma generic_client_URLs_cluster_events [simp]:
  "generic_client_URLs (cluster_events opts cc dc m @ t) = generic_client_URLs t"
  by (simp add: cluster_events_def lister_call_def)

lemma instrument_tags_cluster_events [simp]:
  "instrument_tags (cluster_events opts cc dc m @ t) = instrument_tags t"
  by (simp add: cluster_events_def lister_call_def)

lemma conflict_result:
  assumes "inClusterAuth" and "kubeConfigPath \<noteq> []"
  shows "makeHTTPClient env inClusterAuth kubeConfigPath =
       ((None, Some (errorString
          ''may not use both in-cluster auth and an explicit kubeconfig at the same time'')), [])"
  using assms by (simp add: makeHTTPClient_def)

lemma Run_conflict:
  assumes "PrometheusAuthInCluster opts" and "PrometheusAuthConf opts \<noteq> []"
  shows "fst (RunCustomMetricsAdapterServer env opts stopCh) \<noteq> None
     \<and> (\<forall>server ch. Ext (Call_Run server ch)
           \<notin> set (snd (RunCustomMetricsAdapterServer env opts stopCh)))"
proof (cases rule: Run_outcomes [of env opts stopCh])
  case (Config e)
  then show ?thesis by simp
next
  case (lister cfg err)
  then show ?thesis by (simp add: lister_call_def)
next
  case (discovery cfg clientConfig err)
  then show ?thesis by (simp add: lister_call_def)
next
  case (mapper cfg clientConfig discoveryClient err)
  then show ?thesis by (simp add: lister_call_def)
next
  case (parse cfg clientConfig discoveryClient dynamicMapper err)
  then show ?thesis by (simp add: lister_call_def cluster_events_def)
next
  case (credentials cfg clientConfig discoveryClient dynamicMapper baseURL c e calls)
  then show ?thesis by (simp add: lister_call_def cluster_events_def)
next
  case (construct cfg clientConfig discoveryClient dynamicMapper baseURL promHTTPClient calls
      backend config cmProvider e)
  then show ?thesis using conflict_result [OF assms, of env] by simp
next
  case (serve cfg clientConfig discoveryClient dynamicMapper baseURL promHTTPClient calls
      backend config cmProvider server)
  then show ?thesis using conflict_result [OF assms, of env] by simp
qed

lemma lister_clientConfig_base [simp]:
  "lister_clientConfig env (opts\<lparr>base := b\<rparr>) = lister_clientConfig env opts"
  by (simp add: lister_clientConfig_def)

section \<open>The cluster client factory\<close>



text \<open>
  Claim C6. The mapper is constructed right after the discovery client, from that
  client and the configured discovery interval. When its construction fails, the run
  returns the error of the mapper with the cause's message at its end
  (\<^verbatim>\<open>MapperInitError\<close>), and the trace ends there: no client pool, no backend client
  and no provider is constructed.
\<close>

theorem mapper_construction:
  assumes "opts_Config env (base opts) = Inr cfg"
    and "lister_clientConfig env opts = Inr clientConfig"
    and "discovery_NewDiscoveryClientForConfig env clientConfig = Inr discoveryClient"
  shows
    "take 4 (snd (RunCustomMetricsAdapterServer env opts stopCh)) =
       [Ext (Call_Config (base opts)), Ext (lister_call opts),
        Ext (Call_NewDiscoveryClientForConfig clientConfig),
        Ext (Call_NewRESTMapper discoveryClient (DiscoveryInterval opts))]
     \<and> (\<forall>err.
          dynamicmapper_NewRESTMapper env discoveryClient (DiscoveryInterval opts) = Inl err \<longrightarrow>
          RunCustomMetricsAdapterServer env opts stopCh =
            (Some (errorString (''unable to construct dynamic discovery mapper: '' @ Error err)),
             [Ext (Call_Config (base opts)), Ext (lister_call opts),
              Ext (Call_NewDiscoveryClientForConfig clientConfig),
              Ext (Call_NewRESTMapper discoveryClient (DiscoveryInterval opts))]))"
  using Run_take4 [OF assms, of stopCh] Run_mapper_Inl [OF assms, of _ stopCh]
  by simp

theorem mapper_construction_witness:
  "RunCustomMetricsAdapterServer no_discovery flags (Chan 0) =
     (Some (errorString
        (''unable to construct dynamic discovery mapper: ''
           @ ''the server could not find the requested resource'')),
      [Ext (Call_Config (BaseOptions ''defaults'')), Ext Call_InClusterConfig,
       Ext (Call_NewDiscoveryClientForConfig (RestConfig ''in-cluster'')),
       Ext (Call_NewRESTMapper (DiscoveryClient ''discovery'') 600000000000)])
   \<and> take 4 (snd (RunCustomMetricsAdapterServer healthy flags (Chan 0))) =
      [Ext (Call_Config (BaseOptions ''defaults'')), Ext Call_InClusterConfig,
       Ext (Call_NewDiscoveryClientForConfig (RestConfig ''in-cluster'')),
       Ext (Call_NewRESTMapper (DiscoveryClient ''discovery'') 600000000000)]"
  using
    mapper_construction [where env = no_discovery and opts = flags and stopCh = "Chan 0"
      and cfg = "\<lparr>GenericConfig = \<lparr>EnableMetrics = False\<rparr>\<rparr>"
      and clientConfig = "RestConfig ''in-cluster''"
      and discoveryClient = "DiscoveryClient ''discovery''"]
    mapper_construction [where env = healthy and opts = flags and stopCh = "Chan 0"
      and cfg = "\<lparr>GenericConfig = \<lparr>EnableMetrics = False\<rparr>\<rparr>"
      and clientConfig = "RestConfig ''in-cluster''"
      and discoveryClient = "DiscoveryClient ''discovery''"]
  by (simp add: no_discovery_def healthy_def flags_def lister_clientConfig_def lister_call_def)

section \<open>The backend client factory\<close>

text \<open>
  Claim C7. Let the server configuration and the cluster client factory have succeeded.
  \<^item> When the base URL does not parse, the run returns the error of the invalid URL
    (\<^verbatim>\<open>InvalidURL\<close>), and the trace ends with the parse: no backend client exists yet,
    neither the HTTP client nor the generic, instrumented or typed one.
  \<^item> When it parses and the HTTP client is made, the URL handed to
    \<^verbatim>\<open>prom.NewGenericAPIClient\<close> is the parse result itself, its query included:
    nothing is stripped on the way.
\<close>

theorem backend_URL:
  assumes "opts_Config env (base opts) = Inr cfg"
    and "lister_clientConfig env opts = Inr clientConfig"
    and "discovery_NewDiscoveryClientForConfig env clientConfig = Inr discoveryClient"
    and "dynamicmapper_NewRESTMapper env discoveryClient (DiscoveryInterval opts) = Inr dynamicMapper"
  shows
    "(\<forall>err. url_Parse env (PrometheusURL opts) = Inl err \<longrightarrow>
        RunCustomMetricsAdapterServer env opts stopCh =
          (Some (errorString
             (''invalid Prometheus URL '' @ fmt_q_URL env None @ '': '' @ Error err)),
           cluster_events opts clientConfig discoveryClient dynamicMapper
             @ [Ext (Call_url_Parse (PrometheusURL opts))]))
     \<and> (\<forall>baseURL promHTTPClient calls.
          url_Parse env (PrometheusURL opts) = Inr baseURL
          \<and> makeHTTPClient env (PrometheusAuthInCluster opts) (PrometheusAuthConf opts)
              = ((promHTTPClient, None), calls) \<longrightarrow>
          generic_client_URLs (snd (RunCustomMetricsAdapterServer env opts stopCh)) = [baseURL])"
  using Run_Parse_Inl [OF assms, of _ stopCh]
    Run_backend [OF assms _ _ refl refl refl, of _ _ _ stopCh]
  by (simp split: sum.splits)

theorem backend_URL_witness:
  "RunCustomMetricsAdapterServer healthy (flags\<lparr>PrometheusURL := ''://prom.example:9090''\<rparr>) (Chan 0) =
     (Some (errorString
        (''invalid Prometheus URL <nil>: ''
           @ ''parse ://prom.example:9090: missing protocol scheme'')),
      [Ext (Call_Config (BaseOptions ''defaults'')), Ext Call_InClusterConfig,
       Ext (Call_NewDiscoveryClientForConfig (RestConfig ''in-cluster'')),
       Ext (Call_NewRESTMapper (DiscoveryClient ''discovery'') 600000000000),
       Ext (Call_NewClientPool (RestConfig ''in-cluster'') (RESTMapper ''mapper'')),
       Ext (Call_url_Parse ''://prom.example:9090'')])
   \<and> generic_client_URLs (snd (RunCustomMetricsAdapterServer healthy
         (flags\<lparr>PrometheusURL := ''https://prom.example:9090/api?timeout=30s''\<rparr>) (Chan 0))) =
       [\<lparr>Scheme = ''https'', Host = ''prom.example:9090'', Path = ''/api'',
         RawQuery = ''timeout=30s'', Fragment = []\<rparr>]"
  using
    backend_URL [where env = healthy and opts = "flags\<lparr>PrometheusURL := ''://prom.example:9090''\<rparr>"
      and stopCh = "Chan 0" and cfg = "\<lparr>GenericConfig = \<lparr>EnableMetrics = False\<rparr>\<rparr>"
      and clientConfig = "RestConfig ''in-cluster''"
      and discoveryClient = "DiscoveryClient ''discovery''"
      and dynamicMapper = "RESTMapper ''mapper''"]
    backend_URL [where env = healthy
      and opts = "flags\<lparr>PrometheusURL := ''https://prom.example:9090/api?timeout=30s''\<rparr>"
      and stopCh = "Chan 0" and cfg = "\<lparr>GenericConfig = \<lparr>EnableMetrics = False\<rparr>\<rparr>"
      and clientConfig = "RestConfig ''in-cluster''"
      and discoveryClient = "DiscoveryClient ''discovery''"
      and dynamicMapper = "RESTMapper ''mapper''"]
  by (simp add: healthy_def flags_def lister_clientConfig_def lister_call_def cluster_events_def
      parse_table_def prom_example_def makeHTTPClient_def)

text \<open>
  Claim C8, amended. When every earlier step has succeeded, the generic backend client is
  wrapped by \<^verbatim>\<open>mprom.InstrumentGenericAPIClient\<close>, and that by the typed client. The tag
  of the instrumentation is \<^verbatim>\<open>baseURL.String()\<close>, the rendering of the parsed URL; it is
  the configured string whenever the rendering gives the configured string back, as it
  does for \<^verbatim>\<open>https://prom.example:9090\<close>.
\<close>

theorem instrumentation_tag:
  assumes "opts_Config env (base opts) = Inr cfg"
    and "lister_clientConfig env opts = Inr clientConfig"
    and "discovery_NewDiscoveryClientForConfig env clientConfig = Inr discoveryClient"
    and "dynamicmapper_NewRESTMapper env discoveryClient (DiscoveryInterval opts) = Inr dynamicMapper"
    and "url_Parse env (PrometheusURL opts) = Inr baseURL"
    and "makeHTTPClient env (PrometheusAuthInCluster opts) (PrometheusAuthConf opts)
           = ((promHTTPClient, None), calls)"
  shows
    "instrument_tags (snd (RunCustomMetricsAdapterServer env opts stopCh))
       = [URL_String env baseURL]
     \<and> Ext (Call_NewClientForAPI (InstrumentGenericAPIClient
              (NewGenericAPIClient promHTTPClient baseURL) (URL_String env baseURL)))
         \<in> set (snd (RunCustomMetricsAdapterServer env opts stopCh))
     \<and> (URL_String env baseURL = PrometheusURL opts \<longrightarrow>
          instrument_tags (snd (RunCustomMetricsAdapterServer env opts stopCh))
            = [PrometheusURL opts])"
  using Run_backend [OF assms refl refl refl, of stopCh]
  by (simp split: sum.splits)

theorem instrumentation_tag_witness:
  "instrument_tags (snd (RunCustomMetricsAdapterServer healthy flags (Chan 0)))
     = [''https://prom.example:9090'']
   \<and> Ext (Call_NewClientForAPI (InstrumentGenericAPIClient
          (NewGenericAPIClient (Some DefaultClient) prom_example) ''https://prom.example:9090''))
       \<in> set (snd (RunCustomMetricsAdapterServer healthy flags (Chan 0)))
   \<and> PrometheusURL flags = ''https://prom.example:9090''"
  using
    instrumentation_tag [where env = healthy and opts = flags
      and stopCh = "Chan 0" and cfg = "\<lparr>GenericConfig = \<lparr>EnableMetrics = False\<rparr>\<rparr>"
      and clientConfig = "RestConfig ''in-cluster''"
      and discoveryClient = "DiscoveryClient ''discovery''"
      and dynamicMapper = "RESTMapper ''mapper''"
      and baseURL = prom_example and promHTTPClient = "Some DefaultClient" and calls = "[]"]
  by (simp add: healthy_def flags_def lister_clientConfig_def
      parse_table_def prom_example_def makeHTTPClient_def render_URL_def)

text \<open>
  The tag is not always the configured string: \<^verbatim>\<open>url.Parse\<close> lower-cases the scheme,
  so for \<^verbatim>\<open>HTTPS://prom.example:9090\<close> the tag is \<^verbatim>\<open>https://prom.example:9090\<close>.
\<close>

theorem instrumentation_tag_counterexample:
  "instrument_tags (snd (RunCustomMetricsAdapterServer healthy
      (flags\<lparr>PrometheusURL := ''HTTPS://prom.example:9090''\<rparr>) (Chan 0)))
     = [''https://prom.example:9090'']
   \<and> ''https://prom.example:9090'' \<noteq> PrometheusURL (flags\<lparr>PrometheusURL := ''HTTPS://prom.example:9090''\<rparr>)"
  by (simp add: run_simps healthy_def flags_def parse_table_def prom_example_def
      makeHTTPClient_def render_URL_def)

text \<open>
  Claim C10, amended. When the base URL does not parse (every earlier step having
  succeeded), the operand of \<^verbatim>\<open>%q\<close> is the nil parse result and not the configured
  string: the message is \<^verbatim>\<open>invalid Prometheus URL <nil>: \<close> followed by the message of
  the parse error. The configured string is in the message exactly where the parse error
  carries it.
\<close>

theorem invalid_URL_message:
  assumes "opts_Config env (base opts) = Inr cfg"
    and "lister_clientConfig env opts = Inr clientConfig"
    and "discovery_NewDiscoveryClientForConfig env clientConfig = Inr discoveryClient"
    and "dynamicmapper_NewRESTMapper env discoveryClient (DiscoveryInterval opts) = Inr dynamicMapper"
    and "url_Parse env (PrometheusURL opts) = Inl err"
  shows "fst (RunCustomMetricsAdapterServer env opts stopCh) =
           Some (errorString (''invalid Prometheus URL <nil>: '' @ Error err))"
  using Run_Parse_Inl [OF assms, of stopCh] by simp

theorem invalid_URL_message_witness:
  "fst (RunCustomMetricsAdapterServer healthy
          (flags\<lparr>PrometheusURL := ''://prom.example:9090''\<rparr>) (Chan 0)) =
     Some (errorString (''invalid Prometheus URL <nil>: ''
        @ ''parse ://prom.example:9090: missing protocol scheme''))"
  using invalid_URL_message [where env = healthy
      and opts = "flags\<lparr>PrometheusURL := ''://prom.example:9090''\<rparr>"
      and stopCh = "Chan 0" and cfg = "\<lparr>GenericConfig = \<lparr>EnableMetrics = False\<rparr>\<rparr>"
      and clientConfig = "RestConfig ''in-cluster''"
      and discoveryClient = "DiscoveryClient ''discovery''"
      and dynamicMapper = "RESTMapper ''mapper''"
      and err = "errorString ''parse ://prom.example:9090: missing protocol scheme''"]
  by (simp add: healthy_def flags_def lister_clientConfig_def parse_table_def)

text \<open>
  The parse error of \<^verbatim>\<open>net/url\<close> names the URL it was given, so the configured string
  does appear in the message.
\<close>

theorem invalid_URL_message_counterexample:
  "fst (RunCustomMetricsAdapterServer healthy
          (flags\<lparr>PrometheusURL := ''://prom.example:9090''\<rparr>) (Chan 0)) =
     Some (errorString
       ''invalid Prometheus URL <nil>: parse ://prom.example:9090: missing protocol scheme'')
   \<and> sublist (PrometheusURL (flags\<lparr>PrometheusURL := ''://prom.example:9090''\<rparr>))
       ''invalid Prometheus URL <nil>: parse ://prom.example:9090: missing protocol scheme''"
proof -
  have run: "fst (RunCustomMetricsAdapterServer healthy
               (flags\<lparr>PrometheusURL := ''://prom.example:9090''\<rparr>) (Chan 0)) =
     Some (errorString
       ''invalid Prometheus URL <nil>: parse ://prom.example:9090: missing protocol scheme'')"
    by code_simp
  have "sublist ''://prom.example:9090''
          (''invalid Prometheus URL <nil>: parse ''
             @ ''://prom.example:9090'' @ '': missing protocol scheme'')"
    by (rule sublist_appendI)
  with run show ?thesis by (simp add: flags_def)
qed

section \<open>The server runner\<close>




section \<open>The command\<close>

text \<open>
  Claim C4, amended. With the in-cluster flag set and a non-empty kubeconfig path for the
  backend, the command never serves and always returns an error. The conflict itself is
  found by \<open>makeHTTPClient\<close> in the course of the startup, not by the validation of the
  options (which reads the embedded base options only): when completion, validation, the
  server configuration, the cluster credentials, the discovery client, the mapper and the
  parsing of the base URL succeed, the command returns the error of the conflicting
  configuration after all those calls were made.
\<close>

theorem conflict_found_during_startup:
  assumes "PrometheusAuthInCluster opts" and "PrometheusAuthConf opts \<noteq> []"
  shows
    "fst (RunE env opts args stopCh) \<noteq> None
     \<and> (\<forall>server ch. Ext (Call_Run server ch) \<notin> set (snd (RunE env opts args stopCh)))
     \<and> (\<forall>b cfg clientConfig discoveryClient dynamicMapper baseURL.
          opts_Complete env (base opts) = (None, b)
          \<and> opts_Validate env b args = None
          \<and> opts_Config env b = Inr cfg
          \<and> lister_clientConfig env opts = Inr clientConfig
          \<and> discovery_NewDiscoveryClientForConfig env clientConfig = Inr discoveryClient
          \<and> dynamicmapper_NewRESTMapper env discoveryClient (DiscoveryInterval opts)
              = Inr dynamicMapper
          \<and> url_Parse env (PrometheusURL opts) = Inr baseURL \<longrightarrow>
          RunE env opts args stopCh =
            (Some (errorString
               ''may not use both in-cluster auth and an explicit kubeconfig at the same time''),
             [Ext (Call_Complete (base opts)), Ext (Call_Validate b args)]
               @ cluster_events (opts\<lparr>base := b\<rparr>) clientConfig discoveryClient dynamicMapper
               @ [Ext (Call_url_Parse (PrometheusURL opts)),
                  MakeHTTPClient True (PrometheusAuthConf opts) []]))"
proof -
  obtain err b where complete: "opts_Complete env (base opts) = (err, b)"
    by (metis prod.exhaust)
  have conflict: "PrometheusAuthInCluster (opts\<lparr>base := b\<rparr>)"
      "PrometheusAuthConf (opts\<lparr>base := b\<rparr>) \<noteq> []"
    using assms by simp_all
  note never = Run_conflict [OF conflict, of env stopCh]
  have first: "fst (RunE env opts args stopCh) \<noteq> None"
    using complete never
    by (auto simp add: RunE_def split: option.splits prod.splits)
  have second: "\<forall>server ch. Ext (Call_Run server ch) \<notin> set (snd (RunE env opts args stopCh))"
    using complete never
    by (auto simp add: RunE_def split: option.splits prod.splits)
  have third: "RunE env opts args stopCh =
            (Some (errorString
               ''may not use both in-cluster auth and an explicit kubeconfig at the same time''),
             [Ext (Call_Complete (base opts)), Ext (Call_Validate b' args)]
               @ cluster_events (opts\<lparr>base := b'\<rparr>) clientConfig discoveryClient dynamicMapper
               @ [Ext (Call_url_Parse (PrometheusURL opts)),
                  MakeHTTPClient True (PrometheusAuthConf opts) []])"
    if h: "opts_Complete env (base opts) = (None, b')"
      "opts_Validate env b' args = None"
      "opts_Config env b' = Inr cfg"
      "lister_clientConfig env opts = Inr clientConfig"
      "discovery_NewDiscoveryClientForConfig env clientConfig = Inr discoveryClient"
      "dynamicmapper_NewRESTMapper env discoveryClient (DiscoveryInterval opts) = Inr dynamicMapper"
      "url_Parse env (PrometheusURL opts) = Inr baseURL"
    for b' cfg clientConfig discoveryClient dynamicMapper baseURL
  proof -
    have "RunCustomMetricsAdapterServer env (opts\<lparr>base := b'\<rparr>) stopCh =
      (Some (errorString
         ''may not use both in-cluster auth and an explicit kubeconfig at the same time''),
       cluster_events (opts\<lparr>base := b'\<rparr>) clientConfig discoveryClient dynamicMapper
        @ [Ext (Call_url_Parse (PrometheusURL (opts\<lparr>base := b'\<rparr>))),
           MakeHTTPClient (PrometheusAuthInCluster (opts\<lparr>base := b'\<rparr>))
             (PrometheusAuthConf (opts\<lparr>base := b'\<rparr>)) []])"
      by (rule Run_makeHTTPClient_err [where cfg = cfg and baseURL = baseURL and c = None])
        (use h assms in \<open>simp_all add: conflict_result\<close>)
    then show ?thesis using h assms by (simp add: RunE_def)
  qed
  from first second third show ?thesis by blast
qed

theorem conflict_found_during_startup_witness:
  "RunE healthy
     (flags\<lparr>PrometheusAuthInCluster := True, PrometheusAuthConf := ''/etc/prom/kubeconfig''\<rparr>)
     [] (Chan 0) =
     (Some (errorString
        ''may not use both in-cluster auth and an explicit kubeconfig at the same time''),
      [Ext (Call_Complete (BaseOptions ''defaults'')),
       Ext (Call_Validate (BaseOptions ''defaults'') []),
       Ext (Call_Config (BaseOptions ''defaults'')), Ext Call_InClusterConfig,
       Ext (Call_NewDiscoveryClientForConfig (RestConfig ''in-cluster'')),
       Ext (Call_NewRESTMapper (DiscoveryClient ''discovery'') 600000000000),
       Ext (Call_NewClientPool (RestConfig ''in-cluster'') (RESTMapper ''mapper'')),
       Ext (Call_url_Parse ''https://prom.example:9090''),
       MakeHTTPClient True ''/etc/prom/kubeconfig'' []])"
  using conflict_found_during_startup [where env = healthy
      and opts = "flags\<lparr>PrometheusAuthInCluster := True,
                         PrometheusAuthConf := ''/etc/prom/kubeconfig''\<rparr>"
      and args = "[]" and stopCh = "Chan 0"]
  by (simp add: healthy_def flags_def lister_clientConfig_def lister_call_def cluster_events_def
      parse_table_def)

text \<open>
  A run in which the validation accepts the conflicting options, and the conflict is
  reported after the cluster credentials were resolved and the mapper was constructed.
\<close>

theorem validation_counterexample:
  "opts_Validate healthy (BaseOptions ''defaults'') [] = None
   \<and> RunE healthy
     (flags\<lparr>PrometheusAuthInCluster := True, PrometheusAuthConf := ''/etc/prom/kubeconfig''\<rparr>)
     [] (Chan 0) =
     (Some (errorString
        ''may not use both in-cluster auth and an explicit kubeconfig at the same time''),
      [Ext (Call_Complete (BaseOptions ''defaults'')),
       Ext (Call_Validate (BaseOptions ''defaults'') []),
       Ext (Call_Config (BaseOptions ''defaults'')), Ext Call_InClusterConfig,
       Ext (Call_NewDiscoveryClientForConfig (RestConfig ''in-cluster'')),
       Ext (Call_NewRESTMapper (DiscoveryClient ''discovery'') 600000000000),
       Ext (Call_NewClientPool (RestConfig ''in-cluster'') (RESTMapper ''mapper'')),
       Ext (Call_url_Parse ''https://prom.example:9090''),
       MakeHTTPClient True ''/etc/prom/kubeconfig'' []])"
  by code_simp

end
